theory Spec2Isabelle
  imports Main "HOL-Library.Char_ord" "HOL-Library.List_Lexorder" "HOL-Library.Product_Lexorder"
begin

section \<open>Schema harmonization\<close>

text \<open>
  The design document \<^verbatim>\<open>Task 4/data_at_scale_design.md\<close> gives the harmonizer as
  \<^verbatim>\<open>
  SCHEMA_MAPPINGS = {
      "products_v1": {"product_id": "id", "product_name": "title",
                      "cost": "price", "product_category": "category"},
      "items_v2":    {"item_id": "id", "item_title": "title",
                      "item_price": "price", "item_cat": "category"}
  }

  class SchemaHarmonizer:
      def harmonize_record(self, record, source_schema):
          mapping = SCHEMA_MAPPINGS.get(source_schema, {})
          harmonized = {}
          for target_field, source_field in mapping.items():
              if source_field in record:
                  harmonized[target_field] = self.transform_value(
                      record[source_field], target_field)
          return harmonized
  \<close>
  A dictionary literal is kept as the list of its items in insertion order; the record and
  the harmonized dictionary are maps from field names. The method \<^verbatim>\<open>transform_value\<close>
  is not part of the document: it is a parameter that either returns a value or raises.
\<close>

datatype 'x py_error = KeyError string | Raised 'x

definition SCHEMA_MAPPINGS :: "(string \<times> (string \<times> string) list) list" where
  "SCHEMA_MAPPINGS =
     [(''products_v1'',
         [(''product_id'', ''id''), (''product_name'', ''title''),
          (''cost'', ''price''), (''product_category'', ''category'')]),
      (''items_v2'',
         [(''item_id'', ''id''), (''item_title'', ''title''),
          (''item_price'', ''price''), (''item_cat'', ''category'')])]"

text \<open>\<^verbatim>\<open>SCHEMA_MAPPINGS.get(source_schema, {})\<close>: the items of the schema's mapping, none for
  a schema that is not a key.\<close>

definition schema_mapping_get :: "string \<Rightarrow> (string \<times> string) list" where
  "schema_mapping_get source_schema =
     (case map_of SCHEMA_MAPPINGS source_schema of None \<Rightarrow> [] | Some mapping \<Rightarrow> mapping)"

text \<open>The \<^verbatim>\<open>for\<close> loop over \<^verbatim>\<open>mapping.items()\<close>. The subscript \<^verbatim>\<open>record[source_field]\<close>
  raises \<^verbatim>\<open>KeyError\<close> on an absent key, and an exception of \<^verbatim>\<open>transform_value\<close> leaves
  the loop and the method.\<close>

fun harmonize_items ::
  "('v \<Rightarrow> string \<Rightarrow> 'x + 'w) \<Rightarrow> (string \<rightharpoonup> 'v) \<Rightarrow> (string \<times> string) list \<Rightarrow>
     (string \<rightharpoonup> 'w) \<Rightarrow> 'x py_error + (string \<rightharpoonup> 'w)" where
  "harmonize_items transform_value record [] harmonized = Inr harmonized"
| "harmonize_items transform_value record ((target_field, source_field) # items) harmonized =
     (if source_field \<in> dom record then
        (case record source_field of
           None \<Rightarrow> Inl (KeyError source_field)
         | Some v \<Rightarrow>
             (case transform_value v target_field of
                Inl x \<Rightarrow> Inl (Raised x)
              | Inr w \<Rightarrow>
                  harmonize_items transform_value record items (harmonized(target_field \<mapsto> w))))
      else harmonize_items transform_value record items harmonized)"

definition harmonize_record ::
  "('v \<Rightarrow> string \<Rightarrow> 'x + 'w) \<Rightarrow> (string \<rightharpoonup> 'v) \<Rightarrow> string \<Rightarrow> 'x py_error + (string \<rightharpoonup> 'w)" where
  "harmonize_record transform_value record source_schema =
     harmonize_items transform_value record (schema_mapping_get source_schema) Map.empty"

text \<open>Two coercions for evaluating the harmonizer: one returns its argument unchanged, the
  other raises on every value.\<close>

definition keep_value :: "'v \<Rightarrow> string \<Rightarrow> unit + 'v" where
  "keep_value v target_field = Inr v"


section \<open>Idempotent batch processing\<close>

text \<open>
  \<^verbatim>\<open>
  class IdempotentProcessor:
      def __init__(self, checkpoint_storage):
          self.checkpoint_storage = checkpoint_storage
          self.processed_batches = set()

      def process_batch_idempotent(self, batch_id, batch_data):
          if batch_id in self.processed_batches:
              return self.get_cached_result(batch_id)
          result = self.process_batch(batch_data)
          self.checkpoint_storage.save_checkpoint(batch_id, result)
          self.processed_batches.add(batch_id)
          return result
  \<close>
  The processor is a record of its two attributes. The checkpoint storage is handed to the
  constructor and outlives the processor; it is kept as the list of the checkpoints saved
  so far, newest first.
\<close>

record 'r idempotent_processor =
  checkpoint_storage :: "(string \<times> 'r) list"
  processed_batches :: "string set"

definition IdempotentProcessor :: "(string \<times> 'r) list \<Rightarrow> 'r idempotent_processor" where
  "IdempotentProcessor storage = \<lparr>checkpoint_storage = storage, processed_batches = {}\<rparr>"

text \<open>Modelled from the spec: \<^verbatim>\<open>save_checkpoint\<close> is called by the document and defined
  nowhere in it. The spec's checkpoint is the persisted record of a batch; saving one adds it
  to the storage.\<close>

definition save_checkpoint :: "string \<Rightarrow> 'r \<Rightarrow> (string \<times> 'r) list \<Rightarrow> (string \<times> 'r) list" where
  "save_checkpoint batch_id result storage = (batch_id, result) # storage"

text \<open>Modelled from the spec: \<^verbatim>\<open>get_cached_result\<close> is called by the document and
  defined nowhere in it. The spec has a replay return the stored result: the result of the
  newest checkpoint saved for the batch id, and a \<^verbatim>\<open>KeyError\<close> when there is none.\<close>

definition get_cached_result :: "'r idempotent_processor \<Rightarrow> string \<Rightarrow> 'x py_error + 'r" where
  "get_cached_result self batch_id =
     (case map_of (checkpoint_storage self) batch_id of
        None \<Rightarrow> Inl (KeyError batch_id)
      | Some result \<Rightarrow> Inr result)"

text \<open>
  \<^verbatim>\<open>process_batch\<close> is not in the document either: it is a parameter that reads and writes
  the world outside the processor (the canonical store) and returns a result or raises. The
  method returns its outcome, the processor and the world. An exception of
  \<^verbatim>\<open>process_batch\<close> leaves the method before the checkpoint is saved. The cached branch
  calls \<open>cached_result\<close>, the parameter standing for \<^verbatim>\<open>self.get_cached_result\<close>.
\<close>

definition process_batch_idempotent ::
  "('r idempotent_processor \<Rightarrow> string \<Rightarrow> 'x py_error + 'r) \<Rightarrow>
   ('d \<Rightarrow> 'w \<Rightarrow> ('x + 'r) \<times> 'w) \<Rightarrow>
   'r idempotent_processor \<Rightarrow> 'w \<Rightarrow> string \<Rightarrow> 'd \<Rightarrow>
   ('x py_error + 'r) \<times> 'r idempotent_processor \<times> 'w" where
  "process_batch_idempotent cached_result process_batch self world batch_id batch_data =
     (if batch_id \<in> processed_batches self then (cached_result self batch_id, self, world)
      else
        (case process_batch batch_data world of
           (Inl x, world') \<Rightarrow> (Inl (Raised x), self, world')
         | (Inr result, world') \<Rightarrow>
             (Inr result,
              self\<lparr>checkpoint_storage := save_checkpoint batch_id result (checkpoint_storage self),
                   processed_batches := insert batch_id (processed_batches self)\<rparr>,
              world')))"

text \<open>A caller that submits batches one after the other to the same processor; the
  outcomes are dropped, the processor and the world are carried on.\<close>

fun submit_all ::
  "('r idempotent_processor \<Rightarrow> string \<Rightarrow> 'x py_error + 'r) \<Rightarrow>
   ('d \<Rightarrow> 'w \<Rightarrow> ('x + 'r) \<times> 'w) \<Rightarrow>
   'r idempotent_processor \<Rightarrow> 'w \<Rightarrow> (string \<times> 'd) list \<Rightarrow> 'r idempotent_processor \<times> 'w" where
  "submit_all cached_result process_batch self world [] = (self, world)"
| "submit_all cached_result process_batch self world ((batch_id, batch_data) # later) =
     (case process_batch_idempotent cached_result process_batch self world batch_id batch_data of
        (outcome, self', world') \<Rightarrow> submit_all cached_result process_batch self' world' later)"

text \<open>The invariant of one processor over a storage that was empty when it was constructed:
  no batch id has two checkpoints, and every batch id with a checkpoint is marked processed.\<close>

definition one_checkpoint_each :: "'r idempotent_processor \<Rightarrow> bool" where
  "one_checkpoint_each self =
     (distinct (map fst (checkpoint_storage self)) \<and>
      fst ` set (checkpoint_storage self) \<subseteq> processed_batches self)"

text \<open>Two batch processors for evaluating the method. The world is the list of the batches
  published so far. The first publishes the batch and returns its size; the second
  publishes the batch and then raises.\<close>

definition publish_batch :: "string \<Rightarrow> string list \<Rightarrow> (unit + nat) \<times> string list" where
  "publish_batch batch_data store = (Inr (length batch_data), store @ [batch_data])"

definition publish_then_raise :: "string \<Rightarrow> string list \<Rightarrow> (unit + nat) \<times> string list" where
  "publish_then_raise batch_data store = (Inl (), store @ [batch_data])"

section \<open>Multi-stage deduplication\<close>

text \<open>
  \<^verbatim>\<open>
  class ProductDeduplicator:
      def deduplicate_products(self, products_batch):
          exact_matches = self.find_exact_matches(products_batch)
          fuzzy_matches = self.find_fuzzy_matches(products_batch)
          ml_matches = self.ml_entity_resolution(products_batch)
          return self.create_master_records(exact_matches, fuzzy_matches, ml_matches)
  \<close>
  The four methods called are not in the document: they are the fields of a record, each
  returning a value or raising. The method has no \<^verbatim>\<open>try\<close>, so the first exception ends it.
  Beside its outcome the model returns the calls made, in order, each with its arguments.
\<close>

record ('p, 'm, 'c, 'x) product_deduplicator =
  find_exact_matches :: "'p list \<Rightarrow> 'x + 'm"
  find_fuzzy_matches :: "'p list \<Rightarrow> 'x + 'm"
  ml_entity_resolution :: "'p list \<Rightarrow> 'x + 'm"
  create_master_records :: "'m \<Rightarrow> 'm \<Rightarrow> 'm \<Rightarrow> 'x + 'c"

datatype ('p, 'm) stage_call =
    Find_exact_matches "'p list"
  | Find_fuzzy_matches "'p list"
  | Ml_entity_resolution "'p list"
  | Create_master_records 'm 'm 'm

definition deduplicate_products ::
  "('p, 'm, 'c, 'x) product_deduplicator \<Rightarrow> 'p list \<Rightarrow> ('x + 'c) \<times> ('p, 'm) stage_call list" where
  "deduplicate_products self products_batch =
     (case find_exact_matches self products_batch of
        Inl x \<Rightarrow> (Inl x, [Find_exact_matches products_batch])
      | Inr exact_matches \<Rightarrow>
          (case find_fuzzy_matches self products_batch of
             Inl x \<Rightarrow> (Inl x, [Find_exact_matches products_batch, Find_fuzzy_matches products_batch])
           | Inr fuzzy_matches \<Rightarrow>
               (case ml_entity_resolution self products_batch of
                  Inl x \<Rightarrow>
                    (Inl x,
                     [Find_exact_matches products_batch, Find_fuzzy_matches products_batch,
                      Ml_entity_resolution products_batch])
                | Inr ml_matches \<Rightarrow>
                    (create_master_records self exact_matches fuzzy_matches ml_matches,
                     [Find_exact_matches products_batch, Find_fuzzy_matches products_batch,
                      Ml_entity_resolution products_batch,
                      Create_master_records exact_matches fuzzy_matches ml_matches]))))"

text \<open>
  Stages for evaluating the method. A product is a triple of an id, a SKU and a title; a
  match is a pair of products. The exact stage pairs products of equal SKU, the fuzzy stage
  products of equal title; the third stage is a parameter; the master records are the
  matches of the three stages together.
\<close>

type_synonym product = "string \<times> string \<times> string"

fun pairs_where :: "('a \<Rightarrow> 'a \<Rightarrow> bool) \<Rightarrow> 'a list \<Rightarrow> ('a \<times> 'a) list" where
  "pairs_where same [] = []"
| "pairs_where same (x # xs) = map (Pair x) (filter (same x) xs) @ pairs_where same xs"

definition sku_title_stages ::
  "(product list \<Rightarrow> string + (product \<times> product) list) \<Rightarrow>
   (product, (product \<times> product) list, (product \<times> product) list, string) product_deduplicator" where
  "sku_title_stages third_stage =
     \<lparr>find_exact_matches = (\<lambda>batch. Inr (pairs_where (\<lambda>a b. fst (snd a) = fst (snd b)) batch)),
      find_fuzzy_matches = (\<lambda>batch. Inr (pairs_where (\<lambda>a b. snd (snd a) = snd (snd b)) batch)),
      ml_entity_resolution = third_stage,
      create_master_records = (\<lambda>exact fuzzy ml. Inr (exact @ fuzzy @ ml))\<rparr>"

section \<open>The pipeline\<close>




section \<open>The serving layer\<close>

text \<open>
  \<^verbatim>\<open>
  def get_product(self, product_id):
      cached = self.redis_cache.get(f"product:{product_id}")
      if cached:
          return json.loads(cached)
      result = self.clickhouse.query(
          f"SELECT * FROM products WHERE id = {product_id}")
      if result.result_rows:
          product = dict(result.result_rows[0])
          self.redis_cache.setex(
              f"product:{product_id}", 3600, json.dumps(product))
          return product
      return None
  \<close>
  The cache, the durable store and the JSON reader and writer belong to libraries: their
  operations are the fields of a record, each returning a value or raising. The cache
  operations take the state of the cache, and \<^verbatim>\<open>setex\<close> returns the new state. The store
  answers a query with its rows; a row is the sequence of the column values of a product.
  The product id is given as the text the format strings insert.
\<close>

datatype py_value = Py_None | Py_int int | Py_str string | Py_tuple "py_value list"

datatype 'x py_exception = TypeError | ValueError | Library_error 'x

text \<open>
  The built-in \<^verbatim>\<open>dict\<close> applied to a sequence takes every element as a key and a value:
  an element that is not itself a sequence raises \<^verbatim>\<open>TypeError\<close>, one that is a sequence
  of a length other than two raises \<^verbatim>\<open>ValueError\<close>. A string is the sequence of its
  characters. A key met again takes the later value.
\<close>

fun dict_element :: "py_value \<Rightarrow> 'x py_exception + py_value \<times> py_value" where
  "dict_element (Py_tuple [k, v]) = Inr (k, v)"
| "dict_element (Py_tuple vs) = Inl ValueError"
| "dict_element (Py_str [a, b]) = Inr (Py_str [a], Py_str [b])"
| "dict_element (Py_str s) = Inl ValueError"
| "dict_element (Py_int n) = Inl TypeError"
| "dict_element Py_None = Inl TypeError"

fun dict_update ::
  "(py_value \<rightharpoonup> py_value) \<Rightarrow> py_value list \<Rightarrow> 'x py_exception + (py_value \<rightharpoonup> py_value)" where
  "dict_update d [] = Inr d"
| "dict_update d (element # elements) =
     (case dict_element element of
        Inl e \<Rightarrow> Inl e
      | Inr (k, v) \<Rightarrow> dict_update (d(k \<mapsto> v)) elements)"

definition dict :: "py_value list \<Rightarrow> 'x py_exception + (py_value \<rightharpoonup> py_value)" where
  "dict elements = dict_update Map.empty elements"

record ('c, 'j, 'x) product_serving_layer =
  redis_get :: "'c \<Rightarrow> string \<Rightarrow> 'x + string option"
  redis_setex :: "'c \<Rightarrow> string \<Rightarrow> nat \<Rightarrow> string \<Rightarrow> 'x + 'c"
  clickhouse_query :: "string \<Rightarrow> 'x + py_value list list"
  json_loads :: "string \<Rightarrow> 'x + 'j"
  json_dumps :: "(py_value \<rightharpoonup> py_value) \<Rightarrow> 'x + string"

text \<open>What the method returns: the decoded payload of the cache, the product built from
  the row of the store, or \<^verbatim>\<open>None\<close>.\<close>

datatype 'j returned = Return_loaded 'j | Return_product "py_value \<rightharpoonup> py_value" | Return_None

datatype tier_access =
    Redis_get string
  | Clickhouse_query string
  | Redis_setex string nat string

text \<open>The test \<^verbatim>\<open>if cached:\<close> holds for a payload that is present and not empty.\<close>

definition truthy :: "string option \<Rightarrow> bool" where
  "truthy cached = (case cached of None \<Rightarrow> False | Some payload \<Rightarrow> payload \<noteq> [])"

text \<open>The two format strings.\<close>

definition product_key :: "string \<Rightarrow> string" where
  "product_key product_id = ''product:'' @ product_id"

definition product_query :: "string \<Rightarrow> string" where
  "product_query product_id = ''SELECT * FROM products WHERE id = '' @ product_id"

text \<open>The method returns its outcome, the state of the cache and the accesses made to the
  two tiers, in order. The first exception ends it.\<close>

definition get_product ::
  "('c, 'j, 'x) product_serving_layer \<Rightarrow> 'c \<Rightarrow> string \<Rightarrow>
     ('x py_exception + 'j returned) \<times> 'c \<times> tier_access list" where
  "get_product self redis_cache product_id =
     (case redis_get self redis_cache (product_key product_id) of
        Inl x \<Rightarrow> (Inl (Library_error x), redis_cache, [Redis_get (product_key product_id)])
      | Inr cached \<Rightarrow>
          if truthy cached then
            (case json_loads self (the cached) of
               Inl x \<Rightarrow> (Inl (Library_error x), redis_cache, [Redis_get (product_key product_id)])
             | Inr loaded \<Rightarrow>
                 (Inr (Return_loaded loaded), redis_cache, [Redis_get (product_key product_id)]))
          else
            (case clickhouse_query self (product_query product_id) of
               Inl x \<Rightarrow>
                 (Inl (Library_error x), redis_cache,
                  [Redis_get (product_key product_id),
                   Clickhouse_query (product_query product_id)])
             | Inr [] \<Rightarrow>
                 (Inr Return_None, redis_cache,
                  [Redis_get (product_key product_id),
                   Clickhouse_query (product_query product_id)])
             | Inr (row # rows) \<Rightarrow>
                 (case dict row of
                    Inl e \<Rightarrow>
                      (Inl e, redis_cache,
                       [Redis_get (product_key product_id),
                        Clickhouse_query (product_query product_id)])
                  | Inr product \<Rightarrow>
                      (case json_dumps self product of
                         Inl x \<Rightarrow>
                           (Inl (Library_error x), redis_cache,
                            [Redis_get (product_key product_id),
                             Clickhouse_query (product_query product_id)])
                       | Inr payload \<Rightarrow>
                           (case redis_setex self redis_cache (product_key product_id) 3600
                                   payload of
                              Inl x \<Rightarrow>
                                (Inl (Library_error x), redis_cache,
                                 [Redis_get (product_key product_id),
                                  Clickhouse_query (product_query product_id),
                                  Redis_setex (product_key product_id) 3600 payload])
                            | Inr redis_cache' \<Rightarrow>
                                (Inr (Return_product product), redis_cache',
                                 [Redis_get (product_key product_id),
                                  Clickhouse_query (product_query product_id),
                                  Redis_setex (product_key product_id) 3600 payload]))))))"

section \<open>Field merge of a cluster\<close>











section \<open>Properties of the harmonizer\<close>













text \<open>
  Claim C7. The loop binds the keys of the mapping to \<^verbatim>\<open>target_field\<close> and its values to
  \<^verbatim>\<open>source_field\<close>. A \<^verbatim>\<open>products_v1\<close> record carrying the fields \<^verbatim>\<open>product_id\<close> and
  \<^verbatim>\<open>product_name\<close> is therefore harmonized to the empty dictionary, and a record carrying
  \<^verbatim>\<open>id\<close> and \<^verbatim>\<open>title\<close> comes out under \<^verbatim>\<open>product_id\<close>, \<^verbatim>\<open>product_name\<close> for
  \<^verbatim>\<open>products_v1\<close> and under \<^verbatim>\<open>item_id\<close>, \<^verbatim>\<open>item_title\<close> for \<^verbatim>\<open>items_v2\<close>: the keys of
  the output are the schema's own names, not the names shared by the schemas.
\<close>

theorem harmonize_record_schema_specific_keys:
  "harmonize_record keep_value
      [''product_id'' \<mapsto> ''P1'', ''product_name'' \<mapsto> ''Widget''] ''products_v1''
     = Inr Map.empty \<and>
   harmonize_record keep_value
      [''id'' \<mapsto> ''P1'', ''title'' \<mapsto> ''Widget''] ''products_v1''
     = Inr [''product_id'' \<mapsto> ''P1'', ''product_name'' \<mapsto> ''Widget''] \<and>
   harmonize_record keep_value
      [''id'' \<mapsto> ''P1'', ''title'' \<mapsto> ''Widget''] ''items_v2''
     = Inr [''item_id'' \<mapsto> ''P1'', ''item_title'' \<mapsto> ''Widget'']"
  by (simp add: harmonize_record_def schema_mapping_get_def SCHEMA_MAPPINGS_def keep_value_def)




section \<open>Properties of the idempotent processor\<close>

lemma process_batch_idempotent_cached:
  "batch_id \<in> processed_batches self \<Longrightarrow>
     process_batch_idempotent cached_result process_batch self world batch_id batch_data =
       (cached_result self batch_id, self, world)"
  by (simp add: process_batch_idempotent_def)

lemma process_batch_idempotent_processed:
  "batch_id \<notin> processed_batches self \<Longrightarrow> process_batch batch_data world = (Inr result, world') \<Longrightarrow>
     process_batch_idempotent cached_result process_batch self world batch_id batch_data =
       (Inr result,
        self\<lparr>checkpoint_storage := save_checkpoint batch_id result (checkpoint_storage self),
             processed_batches := insert batch_id (processed_batches self)\<rparr>,
        world')"
  by (simp add: process_batch_idempotent_def)

lemma process_batch_idempotent_raised:
  "batch_id \<notin> processed_batches self \<Longrightarrow> process_batch batch_data world = (Inl x, world') \<Longrightarrow>
     process_batch_idempotent cached_result process_batch self world batch_id batch_data =
       (Inl (Raised x), self, world')"
  by (simp add: process_batch_idempotent_def)

lemma process_batch_idempotent_fresh:
  "batch_id \<notin> processed_batches self \<Longrightarrow>
     fst (process_batch_idempotent cached_result process_batch self world batch_id batch_data) =
       (case fst (process_batch batch_data world) of Inl x \<Rightarrow> Inl (Raised x) | Inr r \<Rightarrow> Inr r) \<and>
     snd (snd (process_batch_idempotent cached_result process_batch self world batch_id batch_data)) =
       snd (process_batch batch_data world)"
  by (cases "process_batch batch_data world")
     (auto simp add: process_batch_idempotent_def split: sum.splits)

text \<open>A step keeps what is stored for a batch id that is already marked processed.\<close>

lemma process_batch_idempotent_keeps:
  assumes "b \<in> processed_batches self"
    and "map_of (checkpoint_storage self) b = Some r"
    and "process_batch_idempotent cached_result process_batch self world batch_id batch_data =
           (outcome, self', world')"
  shows "b \<in> processed_batches self' \<and> map_of (checkpoint_storage self') b = Some r"
proof (cases "batch_id \<in> processed_batches self")
  case True
  with assms show ?thesis by (simp add: process_batch_idempotent_def)
next
  case False
  with assms(1) have "batch_id \<noteq> b" by auto
  with assms False show ?thesis
    by (cases "process_batch batch_data world")
       (auto simp add: process_batch_idempotent_def save_checkpoint_def split: sum.splits)
qed

lemma submit_all_keeps:
  "b \<in> processed_batches self \<Longrightarrow> map_of (checkpoint_storage self) b = Some r \<Longrightarrow>
     submit_all cached_result process_batch self world later = (self', world') \<Longrightarrow>
     b \<in> processed_batches self' \<and> map_of (checkpoint_storage self') b = Some r"
proof (induction later arbitrary: self world)
  case Nil
  then show ?case by simp
next
  case (Cons submission later)
  obtain batch_id batch_data where sub: "submission = (batch_id, batch_data)"
    by (cases submission)
  obtain outcome self1 world1
    where step: "process_batch_idempotent cached_result process_batch self world batch_id batch_data
      = (outcome, self1, world1)"
    by (cases "process_batch_idempotent cached_result process_batch self world batch_id batch_data")
  from Cons.prems(3) sub step
  have rest: "submit_all cached_result process_batch self1 world1 later = (self', world')"
    by simp
  from process_batch_idempotent_keeps [OF Cons.prems(1) Cons.prems(2) step]
  have "b \<in> processed_batches self1" and "map_of (checkpoint_storage self1) b = Some r"
    by simp_all
  then show ?case using rest by (rule Cons.IH)
qed

lemma process_batch_idempotent_one_checkpoint:
  assumes "one_checkpoint_each self"
    and "process_batch_idempotent cached_result process_batch self world batch_id batch_data =
           (outcome, self', world')"
  shows "one_checkpoint_each self'"
proof (cases "batch_id \<in> processed_batches self")
  case True
  with assms show ?thesis by (simp add: process_batch_idempotent_def)
next
  case False
  from assms(1) have d: "distinct (map fst (checkpoint_storage self))"
    and sub: "fst ` set (checkpoint_storage self) \<subseteq> processed_batches self"
    by (simp_all add: one_checkpoint_each_def)
  from sub False have new: "batch_id \<notin> fst ` set (checkpoint_storage self)" by blast
  obtain res world1 where pb: "process_batch batch_data world = (res, world1)"
    by (cases "process_batch batch_data world")
  show ?thesis
  proof (cases res)
    case (Inl x)
    with assms False pb show ?thesis by (simp add: process_batch_idempotent_def)
  next
    case (Inr result)
    with assms(2) False pb
    have "self' = self\<lparr>checkpoint_storage := (batch_id, result) # checkpoint_storage self,
                          processed_batches := insert batch_id (processed_batches self)\<rparr>"
      by (simp add: process_batch_idempotent_def save_checkpoint_def)
    with d sub new show ?thesis by (auto simp add: one_checkpoint_each_def)
  qed
qed

lemma submit_all_one_checkpoint:
  "one_checkpoint_each self \<Longrightarrow>
     submit_all cached_result process_batch self world later = (self', world') \<Longrightarrow>
     one_checkpoint_each self'"
proof (induction later arbitrary: self world)
  case Nil
  then show ?case by simp
next
  case (Cons submission later)
  obtain batch_id batch_data where sub: "submission = (batch_id, batch_data)"
    by (cases submission)
  obtain outcome self1 world1
    where step: "process_batch_idempotent cached_result process_batch self world batch_id batch_data
      = (outcome, self1, world1)"
    by (cases "process_batch_idempotent cached_result process_batch self world batch_id batch_data")
  from Cons.prems(2) sub step
  have rest: "submit_all cached_result process_batch self1 world1 later = (self', world')"
    by simp
  from process_batch_idempotent_one_checkpoint [OF Cons.prems(1) step]
  show ?case using rest by (rule Cons.IH)
qed

text \<open>
  Claim C1, as stated, fails. The storage holds a checkpoint for \<^verbatim>\<open>b1\<close>, saved by an earlier
  processor, and the store holds the batch it published. A new processor over that storage,
  given \<^verbatim>\<open>b1\<close> again, publishes the batch a second time and saves a second checkpoint
  for \<^verbatim>\<open>b1\<close>: the resubmission is not a no-op, and the batch id is checkpointed twice.
\<close>

theorem resubmission_to_fresh_processor_reprocesses:
  "process_batch_idempotent get_cached_result publish_batch
      (IdempotentProcessor [(''b1'', 4)]) [''data''] ''b1'' ''data'' =
     (Inr 4,
      \<lparr>checkpoint_storage = [(''b1'', 4), (''b1'', 4)], processed_batches = {''b1''}\<rparr>,
      [''data'', ''data''])"
  by (simp add: process_batch_idempotent_def IdempotentProcessor_def publish_batch_def
        save_checkpoint_def)

text \<open>
  Claim C1, amended to one processor. A batch id marked processed is replayed: the method
  returns the stored result and leaves the processor and the world as they are. After a
  first submission that succeeds, and after any further submissions to the same processor,
  submitting the batch id again, with any batch data, returns the result of the first
  submission and changes neither the processor nor the world. A processor constructed over
  an empty storage never saves two checkpoints for one batch id.
\<close>

theorem process_batch_idempotent_replay:
  "(batch_id \<in> processed_batches self \<longrightarrow>
      process_batch_idempotent get_cached_result process_batch self world batch_id batch_data =
        (get_cached_result self batch_id, self, world)) \<and>
   (batch_id \<notin> processed_batches self \<and>
    process_batch batch_data world = (Inr result, world1) \<and>
    process_batch_idempotent get_cached_result process_batch self world batch_id batch_data =
      (outcome, self1, world1') \<and>
    submit_all get_cached_result process_batch self1 world1' later = (self2, world2) \<longrightarrow>
      outcome = Inr result \<and> world1' = world1 \<and>
      process_batch_idempotent get_cached_result process_batch self2 world2 batch_id batch_data2 =
        (Inr result, self2, world2)) \<and>
   (submit_all get_cached_result process_batch (IdempotentProcessor []) world later =
      (self2, world2) \<longrightarrow>
      distinct (map fst (checkpoint_storage self2)))"
proof -
  have replay: "batch_id \<in> processed_batches self \<longrightarrow>
      process_batch_idempotent get_cached_result process_batch self world batch_id batch_data =
        (get_cached_result self batch_id, self, world)"
    by (simp add: process_batch_idempotent_cached)
  have twice: "batch_id \<notin> processed_batches self \<and>
    process_batch batch_data world = (Inr result, world1) \<and>
    process_batch_idempotent get_cached_result process_batch self world batch_id batch_data =
      (outcome, self1, world1') \<and>
    submit_all get_cached_result process_batch self1 world1' later = (self2, world2) \<longrightarrow>
      outcome = Inr result \<and> world1' = world1 \<and>
      process_batch_idempotent get_cached_result process_batch self2 world2 batch_id batch_data2 =
        (Inr result, self2, world2)"
  proof (rule impI)
    assume a: "batch_id \<notin> processed_batches self \<and>
      process_batch batch_data world = (Inr result, world1) \<and>
      process_batch_idempotent get_cached_result process_batch self world batch_id batch_data =
        (outcome, self1, world1') \<and>
      submit_all get_cached_result process_batch self1 world1' later = (self2, world2)"
    then have nb: "batch_id \<notin> processed_batches self"
      and pb: "process_batch batch_data world = (Inr result, world1)"
      by blast+
    have "process_batch_idempotent get_cached_result process_batch self world batch_id
        batch_data =
         (Inr result,
          self\<lparr>checkpoint_storage := save_checkpoint batch_id result (checkpoint_storage self),
               processed_batches := insert batch_id (processed_batches self)\<rparr>,
          world1)"
      using nb pb by (rule process_batch_idempotent_processed)
    moreover from a have "process_batch_idempotent get_cached_result process_batch self world
        batch_id batch_data = (outcome, self1, world1')" by blast
    ultimately have "(outcome, self1, world1') =
         (Inr result,
          self\<lparr>checkpoint_storage := save_checkpoint batch_id result (checkpoint_storage self),
               processed_batches := insert batch_id (processed_batches self)\<rparr>,
          world1)"
      by simp
    then have out: "outcome = Inr result" and w: "world1' = world1"
      and self1: "self1 =
          self\<lparr>checkpoint_storage := save_checkpoint batch_id result (checkpoint_storage self),
               processed_batches := insert batch_id (processed_batches self)\<rparr>"
      by simp_all
    from self1 have in1: "batch_id \<in> processed_batches self1"
      and stored1: "map_of (checkpoint_storage self1) batch_id = Some result"
      by (simp_all add: save_checkpoint_def)
    from a have later: "submit_all get_cached_result process_batch self1 world1' later =
        (self2, world2)" by simp
    from submit_all_keeps [OF in1 stored1 later]
    have in2: "batch_id \<in> processed_batches self2"
      and stored2: "map_of (checkpoint_storage self2) batch_id = Some result"
      by simp_all
    from in2 stored2
    have "process_batch_idempotent get_cached_result process_batch self2 world2 batch_id
        batch_data2 = (Inr result, self2, world2)"
      by (simp add: process_batch_idempotent_cached get_cached_result_def)
    with out w show "outcome = Inr result \<and> world1' = world1 \<and>
        process_batch_idempotent get_cached_result process_batch self2 world2 batch_id batch_data2 =
          (Inr result, self2, world2)"
      by simp
  qed
  have once: "submit_all get_cached_result process_batch (IdempotentProcessor []) world later =
      (self2, world2) \<longrightarrow>
      distinct (map fst (checkpoint_storage self2))"
  proof (rule impI)
    assume run: "submit_all get_cached_result process_batch (IdempotentProcessor []) world later =
        (self2, world2)"
    have "one_checkpoint_each (IdempotentProcessor [])"
      by (simp add: one_checkpoint_each_def IdempotentProcessor_def)
    from submit_all_one_checkpoint [OF this run]
    show "distinct (map fst (checkpoint_storage self2))"
      by (simp add: one_checkpoint_each_def)
  qed
  from replay twice once show ?thesis by (intro conjI)
qed

text \<open>
  Claim C1, amended, at the submissions \<^verbatim>\<open>b1\<close>, \<^verbatim>\<open>b2\<close>, \<^verbatim>\<open>b1\<close> to one processor
  constructed over an empty storage.
\<close>

theorem process_batch_idempotent_replay_witness:
  "''b1'' \<notin> processed_batches (IdempotentProcessor []) \<and>
   publish_batch ''data'' [] = (Inr 4, [''data'']) \<and>
   process_batch_idempotent get_cached_result publish_batch
      (IdempotentProcessor []) [] ''b1'' ''data'' =
     (Inr 4, \<lparr>checkpoint_storage = [(''b1'', 4)], processed_batches = {''b1''}\<rparr>, [''data'']) \<and>
   submit_all get_cached_result publish_batch
      \<lparr>checkpoint_storage = [(''b1'', 4)], processed_batches = {''b1''}\<rparr> [''data'']
      [(''b2'', ''xy'')] =
     (\<lparr>checkpoint_storage = [(''b2'', 2), (''b1'', 4)], processed_batches = {''b1'', ''b2''}\<rparr>,
      [''data'', ''xy'']) \<and>
   process_batch_idempotent get_cached_result publish_batch
      \<lparr>checkpoint_storage = [(''b2'', 2), (''b1'', 4)], processed_batches = {''b1'', ''b2''}\<rparr>
      [''data'', ''xy''] ''b1'' ''other'' =
     (Inr 4,
      \<lparr>checkpoint_storage = [(''b2'', 2), (''b1'', 4)], processed_batches = {''b1'', ''b2''}\<rparr>,
      [''data'', ''xy'']) \<and>
   submit_all get_cached_result publish_batch (IdempotentProcessor []) []
      [(''b1'', ''data''), (''b2'', ''xy''), (''b1'', ''other'')] =
     (\<lparr>checkpoint_storage = [(''b2'', 2), (''b1'', 4)], processed_batches = {''b1'', ''b2''}\<rparr>,
      [''data'', ''xy'']) \<and>
   distinct (map fst [(''b2'', 2 :: nat), (''b1'', 4)])"
proof -
  have fresh: "''b1'' \<notin> processed_batches (IdempotentProcessor [])"
    by (simp add: IdempotentProcessor_def)
  have pb: "publish_batch ''data'' [] = (Inr 4, [''data''])"
    by (simp add: publish_batch_def)
  have first: "process_batch_idempotent get_cached_result publish_batch
      (IdempotentProcessor []) [] ''b1'' ''data'' =
     (Inr 4, \<lparr>checkpoint_storage = [(''b1'', 4)], processed_batches = {''b1''}\<rparr>, [''data''])"
    by (simp add: process_batch_idempotent_def IdempotentProcessor_def publish_batch_def
          save_checkpoint_def)
  have later: "submit_all get_cached_result publish_batch
      \<lparr>checkpoint_storage = [(''b1'', 4)], processed_batches = {''b1''}\<rparr> [''data'']
      [(''b2'', ''xy'')] =
     (\<lparr>checkpoint_storage = [(''b2'', 2), (''b1'', 4)], processed_batches = {''b1'', ''b2''}\<rparr>,
      [''data'', ''xy''])"
    by (auto simp add: process_batch_idempotent_def publish_batch_def save_checkpoint_def)
  from process_batch_idempotent_replay
         [of "''b1''" "IdempotentProcessor []" publish_batch "[]" "''data''" 4 "[''data'']"
             "Inr 4" "\<lparr>checkpoint_storage = [(''b1'', 4)], processed_batches = {''b1''}\<rparr>"
             "[''data'']" "[(''b2'', ''xy'')]"
             "\<lparr>checkpoint_storage = [(''b2'', 2), (''b1'', 4)],
               processed_batches = {''b1'', ''b2''}\<rparr>"
             "[''data'', ''xy'']" "''other''"]
       fresh pb first later
  have "process_batch_idempotent get_cached_result publish_batch
      \<lparr>checkpoint_storage = [(''b2'', 2), (''b1'', 4)], processed_batches = {''b1'', ''b2''}\<rparr>
      [''data'', ''xy''] ''b1'' ''other'' =
     (Inr 4,
      \<lparr>checkpoint_storage = [(''b2'', 2), (''b1'', 4)], processed_batches = {''b1'', ''b2''}\<rparr>,
      [''data'', ''xy''])"
    by blast
  note replay = this
  have all: "submit_all get_cached_result publish_batch (IdempotentProcessor []) []
      [(''b1'', ''data''), (''b2'', ''xy''), (''b1'', ''other'')] =
     (\<lparr>checkpoint_storage = [(''b2'', 2), (''b1'', 4)], processed_batches = {''b1'', ''b2''}\<rparr>,
      [''data'', ''xy''])"
    by (auto simp add: process_batch_idempotent_def publish_batch_def save_checkpoint_def
          IdempotentProcessor_def get_cached_result_def)
  from process_batch_idempotent_replay
         [THEN conjunct2, THEN conjunct2, of publish_batch "[]"
            "[(''b1'', ''data''), (''b2'', ''xy''), (''b1'', ''other'')]"
            "\<lparr>checkpoint_storage = [(''b2'', 2), (''b1'', 4)],
              processed_batches = {''b1'', ''b2''}\<rparr>" "[''data'', ''xy'']"]
       all
  have "distinct (map fst (checkpoint_storage
      \<lparr>checkpoint_storage = [(''b2'', 2 :: nat), (''b1'', 4)],
        processed_batches = {''b1'', ''b2''}\<rparr>))"
    by blast
  then have once: "distinct (map fst [(''b2'', 2 :: nat), (''b1'', 4)])"
    by simp
  from fresh pb first later replay all once show ?thesis by (intro conjI)
qed

text \<open>What one step and a run of submissions do to the set of batch ids marked processed:
  they add nothing but the batch ids submitted, and neither the set nor the world depends on
  the checkpoint storage or on what the cached branch returns.\<close>

lemma process_batch_idempotent_same_marks:
  assumes "processed_batches self1 = processed_batches self2"
  shows "processed_batches
           (fst (snd (process_batch_idempotent cached1 process_batch self1 world batch_id batch_data))) =
         processed_batches
           (fst (snd (process_batch_idempotent cached2 process_batch self2 world batch_id batch_data))) \<and>
         snd (snd (process_batch_idempotent cached1 process_batch self1 world batch_id batch_data)) =
         snd (snd (process_batch_idempotent cached2 process_batch self2 world batch_id batch_data))"
proof (cases "batch_id \<in> processed_batches self1")
  case True
  with assms show ?thesis by (simp add: process_batch_idempotent_def)
next
  case False
  obtain res world1 where pb: "process_batch batch_data world = (res, world1)"
    by (cases "process_batch batch_data world")
  with False assms show ?thesis
    by (cases res) (simp_all add: process_batch_idempotent_def)
qed

lemma submit_all_same_marks:
  "processed_batches self1 = processed_batches self2 \<Longrightarrow>
     processed_batches (fst (submit_all cached1 process_batch self1 world later)) =
       processed_batches (fst (submit_all cached2 process_batch self2 world later)) \<and>
     snd (submit_all cached1 process_batch self1 world later) =
       snd (submit_all cached2 process_batch self2 world later)"
proof (induction later arbitrary: self1 self2 world)
  case Nil
  then show ?case by simp
next
  case (Cons submission later)
  obtain batch_id batch_data where sub: "submission = (batch_id, batch_data)"
    by (cases submission)
  obtain o1 s1 w1 where step1:
    "process_batch_idempotent cached1 process_batch self1 world batch_id batch_data = (o1, s1, w1)"
    by (cases "process_batch_idempotent cached1 process_batch self1 world batch_id batch_data")
  obtain o2 s2 w2 where step2:
    "process_batch_idempotent cached2 process_batch self2 world batch_id batch_data = (o2, s2, w2)"
    by (cases "process_batch_idempotent cached2 process_batch self2 world batch_id batch_data")
  from process_batch_idempotent_same_marks [OF Cons.prems, of cached1 process_batch world batch_id
      batch_data cached2] step1 step2
  have marks: "processed_batches s1 = processed_batches s2" and world: "w1 = w2"
    by simp_all
  from Cons.IH [OF marks, of w1] world sub step1 step2 show ?case by simp
qed

lemma process_batch_idempotent_marks_subset:
  "processed_batches
     (fst (snd (process_batch_idempotent cached_result process_batch self world batch_id batch_data)))
   \<subseteq> insert batch_id (processed_batches self)"
proof (cases "batch_id \<in> processed_batches self")
  case True
  then show ?thesis by (auto simp add: process_batch_idempotent_def)
next
  case False
  obtain res world1 where pb: "process_batch batch_data world = (res, world1)"
    by (cases "process_batch batch_data world")
  with False show ?thesis
    by (cases res) (auto simp add: process_batch_idempotent_def)
qed

lemma submit_all_marks_subset:
  "processed_batches (fst (submit_all cached_result process_batch self world later))
     \<subseteq> processed_batches self \<union> fst ` set later"
proof (induction later arbitrary: self world)
  case Nil
  then show ?case by simp
next
  case (Cons submission later)
  obtain batch_id batch_data where sub: "submission = (batch_id, batch_data)"
    by (cases submission)
  obtain o1 s1 w1 where step:
    "process_batch_idempotent cached_result process_batch self world batch_id batch_data = (o1, s1, w1)"
    by (cases "process_batch_idempotent cached_result process_batch self world batch_id batch_data")
  from process_batch_idempotent_marks_subset [of cached_result process_batch self world batch_id
      batch_data] step
  have one: "processed_batches s1 \<subseteq> insert batch_id (processed_batches self)" by simp
  have "processed_batches (fst (submit_all cached_result process_batch s1 w1 later))
     \<subseteq> processed_batches s1 \<union> fst ` set later"
    by (rule Cons.IH)
  with one sub step show ?case by auto
qed

text \<open>
  Claim C9. The set \<^verbatim>\<open>processed_batches\<close> is empty at construction, whatever the storage
  holds. The method takes the cached branch for a batch id in the set and leaves the
  processor as it is. For a batch id not in the set it calls \<^verbatim>\<open>process_batch\<close>: on success
  it saves a checkpoint and adds that one batch id to the set, on an exception it leaves the
  processor as it is. A newly constructed processor therefore processes every batch,
  whatever checkpoints the storage it was given already holds. After any submissions to a
  new processor the set holds only batch ids that were submitted to it, and the set and the
  world are the same for every storage the processor was constructed over: the storage is
  written and never read.
\<close>

theorem processed_batches_instance_local:
  "processed_batches (IdempotentProcessor storage) = {} \<and>
   (batch_id \<in> processed_batches self \<longrightarrow>
      process_batch_idempotent cached_result process_batch self world batch_id batch_data =
        (cached_result self batch_id, self, world)) \<and>
   (batch_id \<notin> processed_batches self \<and>
    process_batch batch_data world = (Inr result, world') \<longrightarrow>
      process_batch_idempotent cached_result process_batch self world batch_id batch_data =
        (Inr result,
         self\<lparr>checkpoint_storage := save_checkpoint batch_id result (checkpoint_storage self),
              processed_batches := insert batch_id (processed_batches self)\<rparr>,
         world')) \<and>
   (batch_id \<notin> processed_batches self \<and> process_batch batch_data world = (Inl x, world') \<longrightarrow>
      process_batch_idempotent cached_result process_batch self world batch_id batch_data =
        (Inl (Raised x), self, world')) \<and>
   fst (process_batch_idempotent cached_result process_batch (IdempotentProcessor storage) world
          batch_id batch_data) =
     (case fst (process_batch batch_data world) of
        Inl x \<Rightarrow> Inl (Raised x) | Inr result \<Rightarrow> Inr result) \<and>
   snd (snd (process_batch_idempotent cached_result process_batch (IdempotentProcessor storage)
               world batch_id batch_data)) =
     snd (process_batch batch_data world) \<and>
   processed_batches
     (fst (submit_all cached_result process_batch (IdempotentProcessor storage) world later))
     \<subseteq> fst ` set later \<and>
   processed_batches
     (fst (submit_all cached_result process_batch (IdempotentProcessor storage) world later)) =
   processed_batches
     (fst (submit_all other_cached_result process_batch (IdempotentProcessor other_storage) world
        later)) \<and>
   snd (submit_all cached_result process_batch (IdempotentProcessor storage) world later) =
   snd (submit_all other_cached_result process_batch (IdempotentProcessor other_storage) world
        later)"
proof -
  have empty: "processed_batches (IdempotentProcessor storage) = {}"
    by (simp add: IdempotentProcessor_def)
  have cached: "batch_id \<in> processed_batches self \<longrightarrow>
      process_batch_idempotent cached_result process_batch self world batch_id batch_data =
        (cached_result self batch_id, self, world)"
    by (simp add: process_batch_idempotent_cached)
  have processed: "batch_id \<notin> processed_batches self \<and>
    process_batch batch_data world = (Inr result, world') \<longrightarrow>
      process_batch_idempotent cached_result process_batch self world batch_id batch_data =
        (Inr result,
         self\<lparr>checkpoint_storage := save_checkpoint batch_id result (checkpoint_storage self),
              processed_batches := insert batch_id (processed_batches self)\<rparr>,
         world')"
    by (simp add: process_batch_idempotent_processed)
  have raised: "batch_id \<notin> processed_batches self \<and>
    process_batch batch_data world = (Inl x, world') \<longrightarrow>
      process_batch_idempotent cached_result process_batch self world batch_id batch_data =
        (Inl (Raised x), self, world')"
    by (simp add: process_batch_idempotent_raised)
  from empty have "batch_id \<notin> processed_batches (IdempotentProcessor storage)"
    by simp
  from process_batch_idempotent_fresh [OF this]
  have fresh: "fst (process_batch_idempotent cached_result process_batch
          (IdempotentProcessor storage) world batch_id batch_data) =
       (case fst (process_batch batch_data world) of
          Inl x \<Rightarrow> Inl (Raised x) | Inr result \<Rightarrow> Inr result) \<and>
     snd (snd (process_batch_idempotent cached_result process_batch (IdempotentProcessor storage)
                 world batch_id batch_data)) =
       snd (process_batch batch_data world)" .
  from submit_all_marks_subset
         [of cached_result process_batch "IdempotentProcessor storage" world later] empty
  have own: "processed_batches
     (fst (submit_all cached_result process_batch (IdempotentProcessor storage) world later))
     \<subseteq> fst ` set later"
    by simp
  have "processed_batches (IdempotentProcessor storage) =
      processed_batches (IdempotentProcessor other_storage)"
    by (simp add: IdempotentProcessor_def)
  then have unread: "processed_batches
       (fst (submit_all cached_result process_batch (IdempotentProcessor storage) world later)) =
     processed_batches
       (fst (submit_all other_cached_result process_batch (IdempotentProcessor other_storage)
          world later)) \<and>
     snd (submit_all cached_result process_batch (IdempotentProcessor storage) world later) =
     snd (submit_all other_cached_result process_batch (IdempotentProcessor other_storage) world
          later)"
    by (rule submit_all_same_marks)
  from empty cached processed raised fresh own unread show ?thesis by (intro conjI) blast+
qed

text \<open>
  Claim C9 at a processor that has processed \<^verbatim>\<open>b7\<close> and at a new processor over the same
  storage, which processes \<^verbatim>\<open>b7\<close> again, with and without an exception; after a
  submission of \<^verbatim>\<open>b8\<close> the new processor has marked \<^verbatim>\<open>b8\<close> alone.
\<close>

theorem processed_batches_instance_local_witness:
  "''b7'' \<in> processed_batches
      \<lparr>checkpoint_storage = [(''b7'', 2 :: nat)], processed_batches = {''b7''}\<rparr> \<and>
   process_batch_idempotent get_cached_result publish_batch
      \<lparr>checkpoint_storage = [(''b7'', 2)], processed_batches = {''b7''}\<rparr> [''xy''] ''b7'' ''xy'' =
     (Inr 2, \<lparr>checkpoint_storage = [(''b7'', 2)], processed_batches = {''b7''}\<rparr>, [''xy'']) \<and>
   ''b7'' \<notin> processed_batches (IdempotentProcessor [(''b7'', 2)] :: nat idempotent_processor) \<and>
   publish_batch ''xy'' [''xy''] = (Inr 2, [''xy'', ''xy'']) \<and>
   process_batch_idempotent get_cached_result publish_batch
      (IdempotentProcessor [(''b7'', 2)]) [''xy''] ''b7'' ''xy'' =
     (Inr 2,
      \<lparr>checkpoint_storage = [(''b7'', 2), (''b7'', 2)], processed_batches = {''b7''}\<rparr>,
      [''xy'', ''xy'']) \<and>
   publish_then_raise ''xy'' [''xy''] = (Inl (), [''xy'', ''xy'']) \<and>
   process_batch_idempotent get_cached_result publish_then_raise
      (IdempotentProcessor [(''b7'', 2)]) [''xy''] ''b7'' ''xy'' =
     (Inl (Raised ()), \<lparr>checkpoint_storage = [(''b7'', 2)], processed_batches = {}\<rparr>,
      [''xy'', ''xy'']) \<and>
   processed_batches
     (fst (submit_all get_cached_result publish_batch (IdempotentProcessor [(''b7'', 2)]) [''xy'']
        [(''b8'', ''z'')])) = {''b8''}"
proof -
  let ?old = "\<lparr>checkpoint_storage = [(''b7'', 2 :: nat)], processed_batches = {''b7''}\<rparr>"
  let ?new = "IdempotentProcessor [(''b7'', 2 :: nat)]"
  have marked: "''b7'' \<in> processed_batches ?old"
    by simp
  have unmarked: "''b7'' \<notin> processed_batches ?new"
    by (simp add: IdempotentProcessor_def)
  have ok: "publish_batch ''xy'' [''xy''] = (Inr 2, [''xy'', ''xy''])"
    by (simp add: publish_batch_def)
  have bad: "publish_then_raise ''xy'' [''xy''] = (Inl (), [''xy'', ''xy''])"
    by (simp add: publish_then_raise_def)
  from processed_batches_instance_local
         [of "[]" "''b7''" ?old get_cached_result publish_batch "[''xy'']" "''xy''"]
       marked
  have cached: "process_batch_idempotent get_cached_result publish_batch ?old [''xy''] ''b7''
      ''xy'' = (Inr 2, ?old, [''xy''])"
    by (simp add: get_cached_result_def)
  from processed_batches_instance_local
         [of "[]" "''b7''" ?new get_cached_result publish_batch "[''xy'']" "''xy''" 2
             "[''xy'', ''xy'']"]
       unmarked ok
  have again: "process_batch_idempotent get_cached_result publish_batch ?new [''xy''] ''b7''
      ''xy'' =
     (Inr 2,
      \<lparr>checkpoint_storage = [(''b7'', 2), (''b7'', 2)], processed_batches = {''b7''}\<rparr>,
      [''xy'', ''xy''])"
    by (simp add: IdempotentProcessor_def save_checkpoint_def)
  from processed_batches_instance_local
         [of "[]" "''b7''" ?new get_cached_result publish_then_raise "[''xy'']" "''xy''" _
             "[''xy'', ''xy'']" "()"]
       unmarked bad
  have failed: "process_batch_idempotent get_cached_result publish_then_raise ?new [''xy''] ''b7''
      ''xy'' =
     (Inl (Raised ()), \<lparr>checkpoint_storage = [(''b7'', 2)], processed_batches = {}\<rparr>,
      [''xy'', ''xy''])"
    by (simp add: IdempotentProcessor_def)
  have run: "processed_batches
     (fst (submit_all get_cached_result publish_batch ?new [''xy''] [(''b8'', ''z'')])) = {''b8''}"
    by (simp add: IdempotentProcessor_def process_batch_idempotent_def publish_batch_def)
  from marked cached unmarked ok again bad failed run show ?thesis by (intro conjI)
qed

text \<open>
  Claim C6, as stated, fails. When \<^verbatim>\<open>process_batch\<close> publishes and then raises, the method
  ends with the exception: the storage holds no checkpoint for the batch, of any status, and
  the store keeps what was published before the exception.
\<close>

theorem failed_batch_leaves_no_checkpoint:
  "process_batch_idempotent get_cached_result publish_then_raise
      (IdempotentProcessor []) [] ''b1'' ''data'' =
     (Inl (Raised ()), \<lparr>checkpoint_storage = [], processed_batches = {}\<rparr>, [''data''])"
  by (simp add: process_batch_idempotent_def IdempotentProcessor_def publish_then_raise_def)

text \<open>
  Claim C6, amended. An exception of \<^verbatim>\<open>process_batch\<close> is the outcome of the method. The
  processor is left as it was: no checkpoint is saved and the batch id is not marked
  processed. The world is left as \<^verbatim>\<open>process_batch\<close> left it. A retry with the same batch
  id processes the batch again, from that world.
\<close>

theorem process_batch_failure_propagates:
  "batch_id \<notin> processed_batches self \<and> process_batch batch_data world = (Inl x, world') \<longrightarrow>
     process_batch_idempotent cached_result process_batch self world batch_id batch_data =
       (Inl (Raised x), self, world') \<and>
     fst (process_batch_idempotent cached_result retry_process_batch self world' batch_id
            batch_data) =
       (case fst (retry_process_batch batch_data world') of
          Inl x \<Rightarrow> Inl (Raised x) | Inr result \<Rightarrow> Inr result) \<and>
     snd (snd (process_batch_idempotent cached_result retry_process_batch self world' batch_id
                 batch_data)) =
       snd (retry_process_batch batch_data world')"
  by (simp add: process_batch_idempotent_raised process_batch_idempotent_fresh)

text \<open>
  Claim C6, amended, at a batch that is published before the exception and published again
  by the retry.
\<close>

theorem process_batch_failure_propagates_witness:
  "''b1'' \<notin> processed_batches (IdempotentProcessor [] :: nat idempotent_processor) \<and>
   publish_then_raise ''data'' [] = (Inl (), [''data'']) \<and>
   process_batch_idempotent get_cached_result publish_then_raise
      (IdempotentProcessor []) [] ''b1'' ''data'' =
     (Inl (Raised ()), IdempotentProcessor [], [''data'']) \<and>
   fst (process_batch_idempotent get_cached_result publish_batch
          (IdempotentProcessor []) [''data''] ''b1'' ''data'') = Inr 4 \<and>
   snd (snd (process_batch_idempotent get_cached_result publish_batch
          (IdempotentProcessor []) [''data''] ''b1'' ''data'')) = [''data'', ''data'']"
proof -
  have fresh: "''b1'' \<notin> processed_batches (IdempotentProcessor [] :: nat idempotent_processor)"
    by (simp add: IdempotentProcessor_def)
  have raised: "publish_then_raise ''data'' [] = (Inl (), [''data''])"
    by (simp add: publish_then_raise_def)
  from process_batch_failure_propagates
         [of "''b1''" "IdempotentProcessor []" publish_then_raise "''data''" "[]" "()"
             "[''data'']" get_cached_result publish_batch]
       fresh raised
  show ?thesis by (simp add: publish_batch_def)
qed

section \<open>Properties of the deduplication and of the pipeline\<close>

lemma deduplicate_products_all_stages:
  "find_exact_matches self batch = Inr exact \<Longrightarrow> find_fuzzy_matches self batch = Inr fuzzy \<Longrightarrow>
     ml_entity_resolution self batch = Inr ml \<Longrightarrow>
     deduplicate_products self batch =
       (create_master_records self exact fuzzy ml,
        [Find_exact_matches batch, Find_fuzzy_matches batch, Ml_entity_resolution batch,
         Create_master_records exact fuzzy ml])"
  by (simp add: deduplicate_products_def)

lemma deduplicate_products_calls:
  "snd (deduplicate_products self batch) \<in>
     {[Find_exact_matches batch],
      [Find_exact_matches batch, Find_fuzzy_matches batch],
      [Find_exact_matches batch, Find_fuzzy_matches batch, Ml_entity_resolution batch]} \<or>
   (\<exists>exact fuzzy ml.
      snd (deduplicate_products self batch) =
        [Find_exact_matches batch, Find_fuzzy_matches batch, Ml_entity_resolution batch,
         Create_master_records exact fuzzy ml])"
  by (simp add: deduplicate_products_def split: sum.splits)

lemma deduplicate_products_stage_input:
  assumes "call \<in> set (snd (deduplicate_products self batch))"
    and "call = Find_exact_matches b \<or> call = Find_fuzzy_matches b \<or> call = Ml_entity_resolution b"
  shows "b = batch"
  using deduplicate_products_calls [of self batch] assms by auto

text \<open>
  Claim C3, as stated, fails. Two products of equal SKU and equal title are paired by the
  exact stage. The fuzzy stage is then called with the same complete batch and pairs them
  again: the pair the earlier stage resolved is not withheld from the later one.
\<close>

theorem fuzzy_stage_given_resolved_pair:
  "deduplicate_products (sku_title_stages (\<lambda>batch. Inr []))
      [(''1'', ''A1'', ''Widget''), (''2'', ''A1'', ''Widget'')] =
     (Inr [((''1'', ''A1'', ''Widget''), (''2'', ''A1'', ''Widget'')),
           ((''1'', ''A1'', ''Widget''), (''2'', ''A1'', ''Widget''))],
      [Find_exact_matches [(''1'', ''A1'', ''Widget''), (''2'', ''A1'', ''Widget'')],
       Find_fuzzy_matches [(''1'', ''A1'', ''Widget''), (''2'', ''A1'', ''Widget'')],
       Ml_entity_resolution [(''1'', ''A1'', ''Widget''), (''2'', ''A1'', ''Widget'')],
       Create_master_records
         [((''1'', ''A1'', ''Widget''), (''2'', ''A1'', ''Widget''))]
         [((''1'', ''A1'', ''Widget''), (''2'', ''A1'', ''Widget''))]
         []])"
  by (simp add: deduplicate_products_def sku_title_stages_def)

text \<open>
  Claim C3, amended. When the three stages return, they are called in the order exact, fuzzy,
  probabilistic, followed by \<^verbatim>\<open>create_master_records\<close> on their three results, which is
  the outcome. Whatever the stages return, every stage that is called is given the
  complete input batch.
\<close>

theorem deduplicate_products_stage_order:
  "(find_exact_matches self batch = Inr exact \<and> find_fuzzy_matches self batch = Inr fuzzy \<and>
    ml_entity_resolution self batch = Inr ml \<longrightarrow>
      deduplicate_products self batch =
        (create_master_records self exact fuzzy ml,
         [Find_exact_matches batch, Find_fuzzy_matches batch, Ml_entity_resolution batch,
          Create_master_records exact fuzzy ml])) \<and>
   (call \<in> set (snd (deduplicate_products self batch)) \<and>
    (call = Find_exact_matches b \<or> call = Find_fuzzy_matches b \<or>
     call = Ml_entity_resolution b) \<longrightarrow> b = batch)"
  using deduplicate_products_all_stages [of self batch exact fuzzy ml]
    deduplicate_products_stage_input [of call self batch b]
  by blast

text \<open>
  Claim C3, amended, at two products that differ in SKU and agree in title.
\<close>

theorem deduplicate_products_stage_order_witness:
  "find_exact_matches (sku_title_stages (\<lambda>batch. Inr []))
      [(''1'', ''A1'', ''Widget''), (''2'', ''a-1'', ''Widget'')] = Inr [] \<and>
   find_fuzzy_matches (sku_title_stages (\<lambda>batch. Inr []))
      [(''1'', ''A1'', ''Widget''), (''2'', ''a-1'', ''Widget'')] =
     Inr [((''1'', ''A1'', ''Widget''), (''2'', ''a-1'', ''Widget''))] \<and>
   ml_entity_resolution (sku_title_stages (\<lambda>batch. Inr []))
      [(''1'', ''A1'', ''Widget''), (''2'', ''a-1'', ''Widget'')] = Inr [] \<and>
   deduplicate_products (sku_title_stages (\<lambda>batch. Inr []))
      [(''1'', ''A1'', ''Widget''), (''2'', ''a-1'', ''Widget'')] =
     (Inr [((''1'', ''A1'', ''Widget''), (''2'', ''a-1'', ''Widget''))],
      [Find_exact_matches [(''1'', ''A1'', ''Widget''), (''2'', ''a-1'', ''Widget'')],
       Find_fuzzy_matches [(''1'', ''A1'', ''Widget''), (''2'', ''a-1'', ''Widget'')],
       Ml_entity_resolution [(''1'', ''A1'', ''Widget''), (''2'', ''a-1'', ''Widget'')],
       Create_master_records [] [((''1'', ''A1'', ''Widget''), (''2'', ''a-1'', ''Widget''))] []]) \<and>
   Find_fuzzy_matches [(''1'', ''A1'', ''Widget''), (''2'', ''a-1'', ''Widget'')] \<in>
     set (snd (deduplicate_products (sku_title_stages (\<lambda>batch. Inr []))
        [(''1'', ''A1'', ''Widget''), (''2'', ''a-1'', ''Widget'')]))"
proof -
  let ?batch = "[(''1'', ''A1'', ''Widget''), (''2'', ''a-1'', ''Widget'')]"
  let ?self = "sku_title_stages (\<lambda>batch. Inr [])"
  let ?pair = "((''1'', ''A1'', ''Widget''), (''2'', ''a-1'', ''Widget''))"
  have e: "find_exact_matches ?self ?batch = Inr []"
    by (simp add: sku_title_stages_def)
  have f: "find_fuzzy_matches ?self ?batch = Inr [?pair]"
    by (simp add: sku_title_stages_def)
  have m: "ml_entity_resolution ?self ?batch = Inr []"
    by (simp add: sku_title_stages_def)
  have c: "create_master_records ?self [] [?pair] [] = Inr [?pair]"
    by (simp add: sku_title_stages_def)
  from deduplicate_products_stage_order [of ?self ?batch "[]" "[?pair]" "[]"] e f m
  have "deduplicate_products ?self ?batch =
      (create_master_records ?self [] [?pair] [],
       [Find_exact_matches ?batch, Find_fuzzy_matches ?batch, Ml_entity_resolution ?batch,
        Create_master_records [] [?pair] []])"
    by blast
  with c have run: "deduplicate_products ?self ?batch =
      (Inr [?pair],
       [Find_exact_matches ?batch, Find_fuzzy_matches ?batch, Ml_entity_resolution ?batch,
        Create_master_records [] [?pair] []])"
    by simp
  then have "Find_fuzzy_matches ?batch \<in> set (snd (deduplicate_products ?self ?batch))"
    by simp
  with e f m run show ?thesis by blast
qed




section \<open>Properties of the serving layer\<close>

text \<open>
  Claim C8. The cache has no entry for product 7 and the store answers the query for it
  with the row of its column values, the id 7 and the title. Whatever the cache write and
  the JSON functions do, \<^verbatim>\<open>get_product\<close> ends with the \<^verbatim>\<open>TypeError\<close> that \<^verbatim>\<open>dict\<close> raises
  on the row: the product found in the store is not returned and the cache is not written.
\<close>

theorem get_product_found_row_raises:
  "get_product
     \<lparr>redis_get = (\<lambda>cache key. Inr None),
      redis_setex = setex,
      clickhouse_query = (\<lambda>sql. Inr [[Py_int 7, Py_str ''Widget'']]),
      json_loads = loads,
      json_dumps = dumps\<rparr>
     redis_cache ''7'' =
   (Inl TypeError, redis_cache,
    [Redis_get (product_key ''7''), Clickhouse_query (product_query ''7'')])"
  by (simp add: get_product_def truthy_def dict_def)

section \<open>Properties of the field merge\<close>


















end
